theory Spec2Isabelle
  imports Complex_Main "HOL-Library.Sublist"
begin

section \<open>JavaScript values\<close>

text \<open>
  The session layer of the client is the React component \<open>AuthProvider\<close>
  (\<open>contexts/AuthContext\<close>). Its state is three \<open>useState\<close> cells and the
  browser's \<open>localStorage\<close>; its operations are the mount effect, \<open>login\<close>,
  \<open>logout\<close> and \<open>makeAuthenticatedRequest\<close>. The login response body is typed
  \<open>any\<close>, so the model works on untyped JSON values with JavaScript's own rules
  for truthiness, \<open>||\<close> and property reads.

  A number only ever meets a truthiness test here, so \<open>JNum\<close> carries a real
  (zero is falsy; \<open>NaN\<close> cannot come out of a JSON text). An object is its list
  of own properties, the first entry of a key being the property's value.
\<close>

datatype jsval =
    JUndefined
  | JNull
  | JBool bool
  | JNum real
  | JString string
  | JArray "jsval list"
  | JObject "(string \<times> jsval) list"

datatype exn = TypeError | SyntaxError | NetworkError

text \<open>\<open>ToBoolean\<close>: what \<open>if (v)\<close>, \<open>v && w\<close> and \<open>v || w\<close> test.\<close>

fun truthy :: "jsval \<Rightarrow> bool" where
  "truthy JUndefined = False"
| "truthy JNull = False"
| "truthy (JBool b) = b"
| "truthy (JNum n) = (n \<noteq> 0)"
| "truthy (JString s) = (s \<noteq> [])"
| "truthy (JArray vs) = True"
| "truthy (JObject kvs) = True"

text \<open>\<open>a || b\<close>: the left operand when it is truthy, the right one otherwise.\<close>

definition js_or :: "jsval \<Rightarrow> jsval \<Rightarrow> jsval" where
  "js_or a b = (if truthy a then a else b)"

text \<open>
  A property read \<open>v.k\<close> throws a \<open>TypeError\<close> on \<open>null\<close> and \<open>undefined\<close>;
  \<open>nullish\<close> is that test, and every read of the model is guarded by it or made
  on a truthy value. On any other value \<open>js_get\<close> is the read itself, for the
  property names this component reads (\<open>token\<close>, \<open>accessToken\<close>, \<open>jwt\<close>,
  \<open>user\<close>, \<open>data\<close>, \<open>_id\<close>, \<open>id\<close>, \<open>fullName\<close>, \<open>name\<close>, \<open>email\<close>): none of
  them is a property of a JSON boolean, number, string or array, and a missing
  property of an object reads as \<open>undefined\<close>.
\<close>

fun nullish :: "jsval \<Rightarrow> bool" where
  "nullish JUndefined = True"
| "nullish JNull = True"
| "nullish v = False"

fun js_get :: "jsval \<Rightarrow> string \<Rightarrow> jsval" where
  "js_get (JObject kvs) k = (case map_of kvs k of None \<Rightarrow> JUndefined | Some v \<Rightarrow> v)"
| "js_get v k = JUndefined"

section \<open>The environment\<close>

text \<open>
  What the component takes from its platform: the build-time variables
  \<open>import.meta.env.PROD\<close> and \<open>import.meta.env.VITE_API_URL\<close>, the built-ins
  \<open>JSON.parse\<close> (\<open>None\<close> where it throws a \<open>SyntaxError\<close>), \<open>JSON.stringify\<close>
  and the string conversion of a template literal, and the network behind
  \<open>fetch\<close>. A response is its \<open>status\<close> and what \<open>response.json()\<close> resolves to
  (\<open>None\<close> where it rejects); of a request only the URL, the method, the headers
  and the body are kept.
\<close>

record response =
  status :: nat
  json :: "jsval option"

record request =
  req_url :: string
  req_method :: "string option"
  req_headers :: "string \<Rightarrow> string option"
  req_body :: "string option"

datatype fetch_result = Rejected | Resolved response

record env =
  env_PROD :: bool
  VITE_API_URL :: "string option"
  JSON_parse :: "string \<Rightarrow> jsval option"
  JSON_stringify :: "jsval \<Rightarrow> string"
  ToString :: "jsval \<Rightarrow> string"
  fetch :: "request \<Rightarrow> fetch_result"

text \<open>\<open>response.ok\<close> of the Fetch API: the status is in the range 200 to 299.\<close>

definition ok :: "response \<Rightarrow> bool" where
  "ok r = (200 \<le> status r \<and> status r \<le> 299)"

text \<open>The string a template literal \<open>`${v}`\<close> or \<open>localStorage.setItem\<close> makes of a value.\<close>

definition to_str :: "env \<Rightarrow> jsval \<Rightarrow> string" where
  "to_str e v = (case v of JString s \<Rightarrow> s | _ \<Rightarrow> ToString e v)"

text \<open>\<open>VITE_API_URL || fallback\<close>: an unset or empty variable gives the fallback.\<close>

definition getApiBaseUrl :: "env \<Rightarrow> string" where
  "getApiBaseUrl e =
     (if env_PROD e
      then (case VITE_API_URL e of
              Some u \<Rightarrow> if u \<noteq> [] then u else ''https://your-backend-app.onrender.com/api''
            | None \<Rightarrow> ''https://your-backend-app.onrender.com/api'')
      else (case VITE_API_URL e of
              Some u \<Rightarrow> if u \<noteq> [] then u else ''http://localhost:5001/api''
            | None \<Rightarrow> ''http://localhost:5001/api''))"

definition API_BASE_URL :: "env \<Rightarrow> string" where
  "API_BASE_URL e = getApiBaseUrl e"

section \<open>The session state\<close>

text \<open>
  The three state cells of \<open>AuthProvider\<close> and the browser's storage. A state
  setter is modelled by the value the cell has at the next render.
\<close>

record state =
  user :: jsval
  token :: jsval
  isAuthenticated :: bool
  localStorage :: "string \<Rightarrow> string option"

definition setUser :: "jsval \<Rightarrow> state \<Rightarrow> state" where
  "setUser v s = s\<lparr>user := v\<rparr>"

definition setToken :: "jsval \<Rightarrow> state \<Rightarrow> state" where
  "setToken v s = s\<lparr>token := v\<rparr>"

definition setIsAuthenticated :: "bool \<Rightarrow> state \<Rightarrow> state" where
  "setIsAuthenticated b s = s\<lparr>isAuthenticated := b\<rparr>"

definition getItem :: "state \<Rightarrow> string \<Rightarrow> string option" where
  "getItem s k = localStorage s k"

definition setItem :: "string \<Rightarrow> string \<Rightarrow> state \<Rightarrow> state" where
  "setItem k v s = s\<lparr>localStorage := (localStorage s)(k \<mapsto> v)\<rparr>"

definition removeItem :: "string \<Rightarrow> state \<Rightarrow> state" where
  "removeItem k s = s\<lparr>localStorage := (localStorage s)(k := None)\<rparr>"

text \<open>The state of the first render: \<open>useState(null)\<close>, \<open>useState(null)\<close>, \<open>useState(false)\<close>.\<close>

definition initial_state :: "(string \<Rightarrow> string option) \<Rightarrow> state" where
  "initial_state ls = \<lparr>user = JNull, token = JNull, isAuthenticated = False, localStorage = ls\<rparr>"

section \<open>The operations\<close>

subsection \<open>Restoration on mount\<close>

text \<open>
  The body of the \<open>useEffect\<close>. \<open>savedToken && savedUser\<close> holds for two non-empty
  strings. Inside the \<open>try\<close>, \<open>setToken(savedToken)\<close> is a statement of its own
  and has run when \<open>JSON.parse(savedUser)\<close>, the argument of the next call, throws;
  the \<open>catch\<close> block only removes the two storage keys.
\<close>

definition restore_effect :: "env \<Rightarrow> state \<Rightarrow> state" where
  "restore_effect e s =
     (case (getItem s ''jwt_token'', getItem s ''user'') of
        (Some savedToken, Some savedUser) \<Rightarrow>
          if savedToken \<noteq> [] \<and> savedUser \<noteq> [] then
            (let s1 = setToken (JString savedToken) s in
             case JSON_parse e savedUser of
               Some u \<Rightarrow> setIsAuthenticated True (setUser u s1)
             | None \<Rightarrow> removeItem ''user'' (removeItem ''jwt_token'' s1))
          else s
      | _ \<Rightarrow> s)"

definition startup :: "env \<Rightarrow> (string \<Rightarrow> string option) \<Rightarrow> state" where
  "startup e ls = restore_effect e (initial_state ls)"

subsection \<open>logout\<close>

definition logout :: "state \<Rightarrow> state" where
  "logout s =
     removeItem ''user'' (removeItem ''jwt_token''
       (setIsAuthenticated False (setUser JNull (setToken JNull s))))"

subsection \<open>login\<close>

definition login_request :: "env \<Rightarrow> string \<Rightarrow> string \<Rightarrow> request" where
  "login_request e email password =
     \<lparr>req_url = API_BASE_URL e @ ''/auth/login'',
      req_method = Some ''POST'',
      req_headers = [''Content-Type'' \<mapsto> ''application/json''],
      req_body = Some (JSON_stringify e
                   (JObject [(''email'', JString email), (''password'', JString password)]))\<rparr>"

text \<open>The three local constants of the success branch.\<close>

definition login_token :: "jsval \<Rightarrow> jsval" where
  "login_token data = js_or (js_or (js_get data ''token'') (js_get data ''accessToken'')) (js_get data ''jwt'')"

definition login_userInfo :: "jsval \<Rightarrow> jsval" where
  "login_userInfo data = js_or (js_or (js_get data ''user'') (js_get data ''data'')) data"

definition login_userData :: "jsval \<Rightarrow> jsval" where
  "login_userData userInfo =
     JObject
       [(''_id'', js_or (js_get userInfo ''_id'') (js_get userInfo ''id'')),
        (''name'', js_or (js_or (js_get userInfo ''fullName'') (js_get userInfo ''name''))
                     (js_get userInfo ''email'')),
        (''email'', js_get userInfo ''email''),
        (''fullName'', js_or (js_get userInfo ''fullName'') (js_get userInfo ''name''))]"

text \<open>
  The \<open>try\<close> block of \<open>login\<close>. It throws where \<open>fetch\<close> rejects, where
  \<open>response.json()\<close> rejects, and where \<open>data.token\<close> is read from a \<open>null\<close> body;
  the reads from \<open>userInfo\<close> come after the test that it is truthy.
\<close>

definition login_try :: "env \<Rightarrow> string \<Rightarrow> string \<Rightarrow> state \<Rightarrow> (exn + bool) \<times> state" where
  "login_try e email password s =
     (case fetch e (login_request e email password) of
        Rejected \<Rightarrow> (Inl NetworkError, s)
      | Resolved response \<Rightarrow>
          (case json response of
             None \<Rightarrow> (Inl SyntaxError, s)
           | Some data \<Rightarrow>
               if ok response then
                 if nullish data then (Inl TypeError, s)
                 else
                   (let tok = login_token data; userInfo = login_userInfo data in
                    if truthy tok \<and> truthy userInfo then
                      (let userData = login_userData userInfo in
                       (Inr True,
                        setItem ''user'' (JSON_stringify e userData)
                          (setItem ''jwt_token'' (to_str e tok)
                            (setIsAuthenticated True (setUser userData (setToken tok s))))))
                    else (Inr False, s))
               else (Inr False, s)))"

text \<open>The \<open>catch\<close> block: whatever was thrown, log it and return \<open>false\<close>.\<close>

definition login :: "env \<Rightarrow> string \<Rightarrow> string \<Rightarrow> state \<Rightarrow> (exn + bool) \<times> state" where
  "login e email password s =
     (case login_try e email password s of
        (Inl err, s') \<Rightarrow> (Inr False, s')
      | (Inr b, s') \<Rightarrow> (Inr b, s'))"

subsection \<open>makeAuthenticatedRequest\<close>

text \<open>
  The \<open>RequestInit\<close> argument, \<open>{}\<close> by default. Its \<open>headers\<close> is a
  \<open>HeadersInit\<close>: a plain object of names and values, a \<open>Headers\<close> instance, or an
  array of name and value pairs. The code casts it to \<open>Record<string, string>\<close>
  and spreads it into an object literal, whatever it is at run time.
\<close>

datatype headers_init =
    HeadersRecord "string \<Rightarrow> string option"
  | HeadersInstance "(string \<times> string) list"
  | HeadersPairs "(string \<times> string) list"

record request_init =
  init_method :: "string option"
  init_headers :: "headers_init option"
  init_body :: "string option"

text \<open>
  The object spread \<open>...options.headers\<close> copies the own enumerable properties of
  its operand. Of \<open>undefined\<close> there are none; of a plain object they are its
  entries; a \<open>Headers\<close> instance keeps its entries in an internal list and has
  none; of an array they are its indices \<open>0\<close>, \<open>1\<close>, and so on, each holding one
  pair. A header value is the string \<open>fetch\<close> reads from the property: of a pair
  that is its two strings joined by a comma. \<open>index_key\<close> is the decimal name
  of an index.
\<close>

fun index_key :: "nat \<Rightarrow> string" where
  "index_key n =
     (if n < 10 then [''0123456789'' ! n]
      else index_key (n div 10) @ [''0123456789'' ! (n mod 10)])"

declare index_key.simps [simp del]

definition spread_headers :: "headers_init option \<Rightarrow> string \<Rightarrow> string option" where
  "spread_headers hs =
     (case hs of
        None \<Rightarrow> Map.empty
      | Some (HeadersRecord h) \<Rightarrow> h
      | Some (HeadersInstance l) \<Rightarrow> Map.empty
      | Some (HeadersPairs ps) \<Rightarrow>
          map_of (zip (map index_key [0..<length ps]) (map (\<lambda>(n, v). n @ '','' @ v) ps)))"

text \<open>
  A string is the list of its code units: \<open>url.startsWith(p)\<close> is
  \<open>prefix p url\<close>, and \<open>url.slice(4)\<close> is \<open>drop 4 url\<close> (the empty string
  when \<open>url\<close> has fewer than four).
\<close>

definition fullUrl :: "env \<Rightarrow> string \<Rightarrow> string" where
  "fullUrl e url =
     (if prefix ''http'' url then url
      else API_BASE_URL e @ (if prefix ''/'' url then drop 4 url else ''/'' @ url))"

definition request_headers :: "env \<Rightarrow> request_init \<Rightarrow> state \<Rightarrow> string \<Rightarrow> string option" where
  "request_headers e options s =
     (let headers = [''Content-Type'' \<mapsto> ''application/json'']
                      ++ spread_headers (init_headers options)
      in if truthy (token s)
         then headers(''Authorization'' \<mapsto> ''Bearer '' @ to_str e (token s))
         else headers)"

definition authenticated_request :: "env \<Rightarrow> string \<Rightarrow> request_init \<Rightarrow> state \<Rightarrow> request" where
  "authenticated_request e url options s =
     \<lparr>req_url = fullUrl e url,
      req_method = init_method options,
      req_headers = request_headers e options s,
      req_body = init_body options\<rparr>"

text \<open>A rejected \<open>fetch\<close> is not caught: the returned promise rejects with it.\<close>

definition makeAuthenticatedRequest ::
  "env \<Rightarrow> string \<Rightarrow> request_init \<Rightarrow> state \<Rightarrow> (exn + response) \<times> state" where
  "makeAuthenticatedRequest e url options s =
     (case fetch e (authenticated_request e url options s) of
        Rejected \<Rightarrow> (Inl NetworkError, s)
      | Resolved response \<Rightarrow>
          (Inr response, if status response = 401 then logout s else s))"

subsection \<open>The request helper of the product store\<close>

text \<open>
  \<open>store/actions.ts\<close> has a helper of the same name and purpose, which reads the
  token from storage. Its URL and its headers are built as follows.
\<close>

definition store_fullUrl :: "env \<Rightarrow> string \<Rightarrow> string" where
  "store_fullUrl e url =
     (if prefix ''http'' url then url
      else API_BASE_URL e @ (if prefix ''/'' url then url else ''/'' @ url))"

definition getAuthHeaders :: "state \<Rightarrow> string \<Rightarrow> string option" where
  "getAuthHeaders s =
     (case getItem s ''jwt_token'' of
        Some t \<Rightarrow> if t \<noteq> []
                  then [''Content-Type'' \<mapsto> ''application/json'', ''Authorization'' \<mapsto> ''Bearer '' @ t]
                  else [''Content-Type'' \<mapsto> ''application/json'']
      | None \<Rightarrow> [''Content-Type'' \<mapsto> ''application/json''])"

definition store_request_headers :: "request_init \<Rightarrow> state \<Rightarrow> string \<Rightarrow> string option" where
  "store_request_headers options s =
     getAuthHeaders s ++ spread_headers (init_headers options)"

section \<open>The pairing of token, user and flag\<close>

text \<open>
  The pairing the data model asks of a session: the flag is set exactly when a
  token and a user are both held, and a token is held exactly when a user is.
\<close>

definition paired :: "state \<Rightarrow> bool" where
  "paired s =
     ((isAuthenticated s = (truthy (token s) \<and> user s \<noteq> JNull))
      \<and> (truthy (token s) = (user s \<noteq> JNull)))"

section \<open>Example environments\<close>

text \<open>
  The platform functions are parameters of the model. For the worked examples
  they are fixed as follows: \<open>example_parse\<close> is \<open>JSON.parse\<close> on the three
  literal texts of JSON and rejects every other text, among them the text
  \<open>{bad\<close> that the examples store, which \<open>JSON.parse\<close> rejects as well; the
  two string conversions are constant, and no example depends on them.
\<close>

definition example_parse :: "string \<Rightarrow> jsval option" where
  "example_parse s =
     (if s = ''null'' then Some JNull
      else if s = ''true'' then Some (JBool True)
      else if s = ''false'' then Some (JBool False)
      else None)"

definition example_env :: "(request \<Rightarrow> fetch_result) \<Rightarrow> env" where
  "example_env f =
     \<lparr>env_PROD = False, VITE_API_URL = None, JSON_parse = example_parse,
      JSON_stringify = (\<lambda>v. ''{}''), ToString = (\<lambda>v. ''?''), fetch = f\<rparr>"

definition offline_env :: env where
  "offline_env = example_env (\<lambda>q. Rejected)"

definition example_session :: state where
  "example_session =
     \<lparr>user = JObject [(''_id'', JString ''u0''), (''name'', JString ''Ann''),
                      (''email'', JString ''ann@b.com''), (''fullName'', JString ''Ann'')],
      token = JString ''t0'', isAuthenticated = True,
      localStorage = [''jwt_token'' \<mapsto> ''t0'', ''user'' \<mapsto> ''{}'']\<rparr>"

section \<open>Basic facts\<close>

lemma truthy_not_nullish: "truthy v \<Longrightarrow> \<not> nullish v"
  by (cases v) simp_all

lemmas state_ops =
  setUser_def setToken_def setIsAuthenticated_def getItem_def setItem_def removeItem_def

lemma logout_fields:
  "token (logout s) = JNull" "user (logout s) = JNull" "isAuthenticated (logout s) = False"
  "localStorage (logout s) ''jwt_token'' = None" "localStorage (logout s) ''user'' = None"
  by (simp_all add: logout_def state_ops)

text \<open>
  A truthy token can only be read from an object, and then \<open>userInfo\<close>, whose last
  alternative is the body itself, is truthy too: the test \<open>token && userInfo\<close>
  is decided by the token alone.
\<close>

lemma truthy_login_token:
  assumes "truthy (login_token data)"
  shows "\<not> nullish data" and "truthy (login_userInfo data)"
  using assms by (cases data; simp add: login_token_def login_userInfo_def js_or_def)+

lemma login_success:
  assumes "fetch e (login_request e email password) = Resolved r" "ok r"
    "json r = Some data" "truthy (login_token data)"
  shows "login e email password s =
     (Inr True,
      \<lparr>user = login_userData (login_userInfo data), token = login_token data,
       isAuthenticated = True,
       localStorage = (localStorage s)
         (''jwt_token'' \<mapsto> to_str e (login_token data),
          ''user'' \<mapsto> JSON_stringify e (login_userData (login_userInfo data)))\<rparr>)"
  using assms truthy_login_token [OF assms(4)]
  by (simp add: login_def login_try_def state_ops Let_def)

lemma login_no_token:
  assumes "fetch e (login_request e email password) = Resolved r"
    "json r = Some data" "\<not> truthy (login_token data)"
  shows "login e email password s = (Inr False, s)"
  using assms by (simp add: login_def login_try_def Let_def)

text \<open>Every call of \<open>login\<close> either changes nothing or installs a whole session.\<close>

lemma login_cases:
  "login e email password s = (Inr False, s)
   \<or> (\<exists>data. truthy (login_token data)
        \<and> login e email password s =
           (Inr True,
            \<lparr>user = login_userData (login_userInfo data), token = login_token data,
             isAuthenticated = True,
             localStorage = (localStorage s)
               (''jwt_token'' \<mapsto> to_str e (login_token data),
                ''user'' \<mapsto> JSON_stringify e (login_userData (login_userInfo data)))\<rparr>))"
proof (cases "fetch e (login_request e email password)")
  case Rejected
  then show ?thesis by (simp add: login_def login_try_def)
next
  case (Resolved r)
  show ?thesis
  proof (cases "json r")
    case None
    with Resolved show ?thesis by (simp add: login_def login_try_def)
  next
    case (Some data)
    show ?thesis
    proof (cases "ok r \<and> truthy (login_token data)")
      case True
      with login_success [OF Resolved _ Some] show ?thesis by blast
    next
      case False
      with Resolved Some show ?thesis
        by (auto simp: login_def login_try_def Let_def)
    qed
  qed
qed

lemma js_get_userData:
  "js_get (login_userData u) ''name''
     = js_or (js_or (js_get u ''fullName'') (js_get u ''name'')) (js_get u ''email'')"
  "js_get (login_userData u) ''email'' = js_get u ''email''"
  "js_get (login_userData u) ''_id'' = js_or (js_get u ''_id'') (js_get u ''id'')"
  "js_get (login_userData u) ''fullName'' = js_or (js_get u ''fullName'') (js_get u ''name'')"
  by (simp_all add: login_userData_def)

lemma startup_parse_failure:
  assumes "ls ''jwt_token'' = Some t" "ls ''user'' = Some u" "t \<noteq> []" "u \<noteq> []"
    "JSON_parse e u = None"
  shows "startup e ls =
     \<lparr>user = JNull, token = JString t, isAuthenticated = False,
      localStorage = ls(''jwt_token'' := None, ''user'' := None)\<rparr>"
  using assms
  by (simp add: startup_def restore_effect_def initial_state_def state_ops)

lemma startup_parse_success:
  assumes "ls ''jwt_token'' = Some t" "ls ''user'' = Some u" "t \<noteq> []" "u \<noteq> []"
    "JSON_parse e u = Some v"
  shows "startup e ls =
     \<lparr>user = v, token = JString t, isAuthenticated = True, localStorage = ls\<rparr>"
  using assms
  by (simp add: startup_def restore_effect_def initial_state_def state_ops)

section \<open>The session invariant\<close>

text \<open>
  \<open>login\<close>, \<open>logout\<close> and \<open>makeAuthenticatedRequest\<close> keep the token, the user and
  the flag paired, from any state; the first render is paired as well.
\<close>

lemma paired_initial: "paired (initial_state ls)"
  by (simp add: paired_def initial_state_def)

lemma paired_logout: "paired (logout s)"
  by (simp add: paired_def logout_fields)

lemma paired_login: "paired s \<Longrightarrow> paired (snd (login e email password s))"
  using login_cases [of e email password s]
  by (auto simp: paired_def login_userData_def)

lemma paired_request: "paired s \<Longrightarrow> paired (snd (makeAuthenticatedRequest e url options s))"
  by (simp add: makeAuthenticatedRequest_def paired_logout split: fetch_result.splits)

text \<open>
  C1. The data model asks that the flag is set exactly when a token and a user
  are both held, and that no operation sets the token without the user. The
  mount effect breaks this: with a non-empty saved token and a saved user text
  that \<open>JSON.parse\<close> rejects, \<open>setToken\<close> has already run when the parse throws,
  so the session that starts with neither token nor user ends with the saved
  token in memory, no user, and the flag unset.
\<close>

theorem restore_sets_token_without_user:
  assumes "ls ''jwt_token'' = Some t" "ls ''user'' = Some u" "t \<noteq> []" "u \<noteq> []"
    "JSON_parse e u = None"
  shows "token (initial_state ls) = JNull \<and> user (initial_state ls) = JNull
    \<and> token (startup e ls) = JString t \<and> user (startup e ls) = JNull
    \<and> isAuthenticated (startup e ls) = False
    \<and> \<not> paired (startup e ls)"
  using assms(3)
  by (simp add: startup_parse_failure [OF assms] initial_state_def paired_def)

theorem restore_sets_token_without_user_witness:
  "token (startup (example_env (\<lambda>q. Rejected)) [''jwt_token'' \<mapsto> ''t1'', ''user'' \<mapsto> ''{bad''])
     = JString ''t1''
   \<and> user (startup (example_env (\<lambda>q. Rejected)) [''jwt_token'' \<mapsto> ''t1'', ''user'' \<mapsto> ''{bad''])
     = JNull
   \<and> \<not> paired (startup (example_env (\<lambda>q. Rejected))
                  [''jwt_token'' \<mapsto> ''t1'', ''user'' \<mapsto> ''{bad''])"
proof -
  let ?ls = "[''jwt_token'' \<mapsto> ''t1'', ''user'' \<mapsto> ''{bad'']"
  let ?e = "example_env (\<lambda>q. Rejected)"
  have h1: "?ls ''jwt_token'' = Some ''t1''" by simp
  have h2: "?ls ''user'' = Some ''{bad''" by simp
  have h3: "''t1'' \<noteq> []" by simp
  have h4: "''{bad'' \<noteq> []" by simp
  have h5: "JSON_parse ?e ''{bad'' = None" by (simp add: example_env_def example_parse_def)
  from restore_sets_token_without_user [of ?ls "''t1''" "''{bad''" ?e, OF h1 h2 h3 h4 h5]
  show ?thesis by simp
qed

text \<open>
  The flag can also be set with no user: the saved user text \<open>null\<close> parses, to
  \<open>null\<close>, and the effect marks the session authenticated.
\<close>

lemma restore_null_user_authenticated:
  "isAuthenticated (startup (example_env f) [''jwt_token'' \<mapsto> ''t1'', ''user'' \<mapsto> ''null''])
   \<and> user (startup (example_env f) [''jwt_token'' \<mapsto> ''t1'', ''user'' \<mapsto> ''null'']) = JNull
   \<and> \<not> paired (startup (example_env f) [''jwt_token'' \<mapsto> ''t1'', ''user'' \<mapsto> ''null''])"
  by (simp add: startup_parse_success [where t = "''t1''" and u = "''null''" and v = JNull]
       example_env_def example_parse_def paired_def)

section \<open>Restoration on mount\<close>

text \<open>
  The round trip of a saved session: a non-empty token and a user text that
  parses are restored as they are, and storage is left alone.
\<close>

lemma restore_round_trip:
  assumes "ls ''jwt_token'' = Some t" "ls ''user'' = Some u" "t \<noteq> []" "u \<noteq> []"
    "JSON_parse e u = Some v"
  shows "token (startup e ls) = JString t \<and> user (startup e ls) = v
    \<and> isAuthenticated (startup e ls) \<and> localStorage (startup e ls) = ls"
  by (simp add: startup_parse_success [OF assms])

text \<open>
  C3. The spec asks that a failed parse of the saved user removes both saved
  values and leaves the session entirely empty. The code removes both storage
  keys and leaves the user \<open>null\<close> and the flag unset, but the saved token stays
  in memory: the session is not empty, and later requests carry the token.
\<close>

theorem restore_parse_failure_keeps_token:
  assumes "ls ''jwt_token'' = Some t" "ls ''user'' = Some u" "t \<noteq> []" "u \<noteq> []"
    "JSON_parse e u = None"
  shows "getItem (startup e ls) ''jwt_token'' = None
    \<and> getItem (startup e ls) ''user'' = None
    \<and> user (startup e ls) = JNull
    \<and> isAuthenticated (startup e ls) = False
    \<and> token (startup e ls) = JString t
    \<and> token (startup e ls) \<noteq> JNull
    \<and> request_headers e options (startup e ls) ''Authorization'' = Some (''Bearer '' @ t)"
  using assms(3)
  by (simp add: startup_parse_failure [OF assms] getItem_def request_headers_def to_str_def)

theorem restore_parse_failure_keeps_token_witness:
  "startup (example_env (\<lambda>q. Rejected)) [''jwt_token'' \<mapsto> ''stale'', ''user'' \<mapsto> ''{bad'']
     = \<lparr>user = JNull, token = JString ''stale'', isAuthenticated = False,
        localStorage = Map.empty\<rparr>"
proof -
  let ?ls = "[''jwt_token'' \<mapsto> ''stale'', ''user'' \<mapsto> ''{bad'']"
  let ?e = "example_env (\<lambda>q. Rejected)"
  let ?o = "\<lparr>init_method = None, init_headers = None, init_body = None\<rparr>"
  have h1: "?ls ''jwt_token'' = Some ''stale''" by simp
  have h2: "?ls ''user'' = Some ''{bad''" by simp
  have h3: "''stale'' \<noteq> []" by simp
  have h4: "''{bad'' \<noteq> []" by simp
  have h5: "JSON_parse ?e ''{bad'' = None" by (simp add: example_env_def example_parse_def)
  have ls: "localStorage (startup ?e ?ls) = Map.empty"
    by (rule ext) (simp add: startup_def restore_effect_def initial_state_def state_ops
        example_env_def example_parse_def)
  from restore_parse_failure_keeps_token
    [of ?ls "''stale''" "''{bad''" ?e ?o, OF h1 h2 h3 h4 h5]
  have "user (startup ?e ?ls) = JNull \<and> isAuthenticated (startup ?e ?ls) = False
        \<and> token (startup ?e ?ls) = JString ''stale''"
    by blast
  with ls show ?thesis by (simp add: state.equality)
qed

text \<open>
  C10. When exactly one of the two storage keys is present at startup, the
  effect does nothing: the session stays empty and unauthenticated, and storage,
  the lone key included, is as it was.
\<close>

theorem restore_lone_key_untouched:
  assumes "(ls ''jwt_token'' = None) \<noteq> (ls ''user'' = None)"
  shows "startup e ls = initial_state ls
    \<and> token (startup e ls) = JNull \<and> user (startup e ls) = JNull
    \<and> isAuthenticated (startup e ls) = False
    \<and> localStorage (startup e ls) = ls"
proof -
  have "restore_effect e (initial_state ls) = initial_state ls"
    using assms
    by (auto simp: restore_effect_def getItem_def initial_state_def split: option.splits)
  then show ?thesis by (simp add: startup_def initial_state_def)
qed

theorem restore_lone_key_untouched_witness:
  "startup (example_env (\<lambda>q. Rejected)) [''jwt_token'' \<mapsto> ''t1'']
     = initial_state [''jwt_token'' \<mapsto> ''t1'']
   \<and> startup (example_env (\<lambda>q. Rejected)) [''user'' \<mapsto> ''null'']
     = initial_state [''user'' \<mapsto> ''null'']"
proof -
  have h1: "([''jwt_token'' \<mapsto> ''t1''] ''jwt_token'' = None)
            \<noteq> ([''jwt_token'' \<mapsto> ''t1''] ''user'' = None)" by simp
  have h2: "([''user'' \<mapsto> ''null''] ''jwt_token'' = None)
            \<noteq> ([''user'' \<mapsto> ''null''] ''user'' = (None :: string option))" by simp
  from restore_lone_key_untouched
      [of "[''jwt_token'' \<mapsto> ''t1'']" "example_env (\<lambda>q. Rejected)", OF h1]
    restore_lone_key_untouched
      [of "[''user'' \<mapsto> ''null'']" "example_env (\<lambda>q. Rejected)", OF h2]
  show ?thesis by simp
qed

section \<open>logout\<close>

text \<open>
  C9. \<open>logout\<close> is idempotent: it has no failing branch, a second call changes
  nothing, and after it the token and the user are \<open>null\<close>, the session is not
  authenticated and both storage keys are absent.
\<close>

theorem logout_idempotent:
  "logout (logout s) = logout s
   \<and> token (logout s) = JNull \<and> user (logout s) = JNull
   \<and> isAuthenticated (logout s) = False
   \<and> getItem (logout s) ''jwt_token'' = None \<and> getItem (logout s) ''user'' = None"
  by (simp add: logout_def state_ops)

section \<open>login\<close>

text \<open>
  C4. Whatever the credentials, when \<open>fetch\<close> rejects or the response status is
  not a success status, \<open>login\<close> returns \<open>false\<close>, throws nothing, and leaves the
  token, the user, the flag and storage as they were. (A body that is not JSON
  makes \<open>response.json()\<close> reject; the \<open>catch\<close> block covers that too.)
\<close>

theorem login_failure_returns_false:
  assumes "fetch e (login_request e email password) = Rejected
           \<or> (\<exists>r. fetch e (login_request e email password) = Resolved r \<and> \<not> ok r)"
  shows "login e email password s = (Inr False, s)"
  using assms by (auto simp: login_def login_try_def split: option.splits)

theorem login_failure_returns_false_witness:
  "login (example_env (\<lambda>q. Rejected)) ''ann@b.com'' ''pw'' example_session
     = (Inr False, example_session)
   \<and> login (example_env (\<lambda>q. Resolved \<lparr>status = 400, json = Some (JObject [(''error'', JString ''bad'')])\<rparr>))
        ''ann@b.com'' ''pw'' example_session
     = (Inr False, example_session)
   \<and> login (example_env (\<lambda>q. Resolved \<lparr>status = 500, json = None\<rparr>))
        ''ann@b.com'' ''pw'' example_session
     = (Inr False, example_session)"
proof -
  let ?e1 = "example_env (\<lambda>q. Rejected)"
  let ?r2 = "\<lparr>status = 400, json = Some (JObject [(''error'', JString ''bad'')])\<rparr>"
  let ?e2 = "example_env (\<lambda>q. Resolved ?r2)"
  let ?r3 = "\<lparr>status = 500, json = None\<rparr>"
  let ?e3 = "example_env (\<lambda>q. Resolved ?r3)"
  have h1: "fetch ?e1 (login_request ?e1 ''ann@b.com'' ''pw'') = Rejected
            \<or> (\<exists>r. fetch ?e1 (login_request ?e1 ''ann@b.com'' ''pw'') = Resolved r \<and> \<not> ok r)"
    by (simp add: example_env_def)
  have "fetch ?e2 (login_request ?e2 ''ann@b.com'' ''pw'') = Resolved ?r2 \<and> \<not> ok ?r2"
    by (simp add: example_env_def ok_def)
  then have h2: "fetch ?e2 (login_request ?e2 ''ann@b.com'' ''pw'') = Rejected
            \<or> (\<exists>r. fetch ?e2 (login_request ?e2 ''ann@b.com'' ''pw'') = Resolved r \<and> \<not> ok r)"
    by blast
  have "fetch ?e3 (login_request ?e3 ''ann@b.com'' ''pw'') = Resolved ?r3 \<and> \<not> ok ?r3"
    by (simp add: example_env_def ok_def)
  then have h3: "fetch ?e3 (login_request ?e3 ''ann@b.com'' ''pw'') = Rejected
            \<or> (\<exists>r. fetch ?e3 (login_request ?e3 ''ann@b.com'' ''pw'') = Resolved r \<and> \<not> ok r)"
    by blast
  from login_failure_returns_false [OF h1] login_failure_returns_false [OF h2]
    login_failure_returns_false [OF h3]
  show ?thesis by simp
qed

text \<open>
  A success response with no truthy \<open>token\<close>, \<open>accessToken\<close> or \<open>jwt\<close> is a failed
  login that changes nothing.
\<close>

lemma login_without_token_fails:
  assumes "fetch e (login_request e email password) = Resolved r" "json r = Some data"
    "\<not> truthy (js_get data ''token'')" "\<not> truthy (js_get data ''accessToken'')"
    "\<not> truthy (js_get data ''jwt'')"
  shows "login e email password s = (Inr False, s)"
proof -
  have "\<not> truthy (login_token data)"
    using assms(3-5) by (simp add: login_token_def js_or_def)
  with assms(1,2) show ?thesis by (rule login_no_token)
qed

text \<open>
  C5. The spec asks that a success response from which the token or the user
  identity is missing is a failed login without any change of state, also when
  the token is there and no user identity is. The code does not: for the body
  \<open>{ token: t }\<close> the user information falls back to the body itself, which is
  truthy, so \<open>login\<close> returns \<open>true\<close>, stores a user whose fields are all
  \<open>undefined\<close>, sets the flag and writes storage.
\<close>

theorem login_token_only_succeeds:
  assumes "fetch e (login_request e email password) = Resolved r" and "ok r"
    and "json r = Some (JObject [(''token'', JString t)])" and "t \<noteq> []"
  shows "fst (login e email password s) = Inr True
    \<and> token (snd (login e email password s)) = JString t
    \<and> user (snd (login e email password s))
        = JObject [(''_id'', JUndefined), (''name'', JUndefined),
                   (''email'', JUndefined), (''fullName'', JUndefined)]
    \<and> isAuthenticated (snd (login e email password s)) = True
    \<and> getItem (snd (login e email password s)) ''jwt_token'' = Some t"
proof -
  let ?d = "JObject [(''token'', JString t)]"
  have t: "truthy (login_token ?d)"
    using assms(4) by (simp add: login_token_def js_or_def)
  have tok: "login_token ?d = JString t"
    using assms(4) by (simp add: login_token_def js_or_def)
  have u: "login_userData (login_userInfo ?d)
             = JObject [(''_id'', JUndefined), (''name'', JUndefined),
                        (''email'', JUndefined), (''fullName'', JUndefined)]"
    by (simp add: login_userInfo_def login_userData_def js_or_def)
  show ?thesis
    by (simp add: login_success [OF assms(1-3) t] tok u getItem_def to_str_def)
qed

theorem login_token_only_succeeds_witness:
  "login (example_env (\<lambda>q. Resolved \<lparr>status = 200, json = Some (JObject [(''token'', JString ''t1'')])\<rparr>))
     ''a@b.com'' ''pw'' (initial_state Map.empty)
   = (Inr True,
      \<lparr>user = JObject [(''_id'', JUndefined), (''name'', JUndefined),
                       (''email'', JUndefined), (''fullName'', JUndefined)],
       token = JString ''t1'', isAuthenticated = True,
       localStorage = [''jwt_token'' \<mapsto> ''t1'', ''user'' \<mapsto> ''{}'']\<rparr>)"
proof -
  let ?r = "\<lparr>status = 200, json = Some (JObject [(''token'', JString ''t1'')])\<rparr>"
  let ?e = "example_env (\<lambda>q. Resolved ?r)"
  let ?s = "initial_state Map.empty"
  have h1: "fetch ?e (login_request ?e ''a@b.com'' ''pw'') = Resolved ?r"
    by (simp add: example_env_def)
  have h2: "ok ?r" by (simp add: ok_def)
  have h3: "json ?r = Some (JObject [(''token'', JString ''t1'')])" by simp
  have h4: "''t1'' \<noteq> []" by simp
  have ls: "localStorage (snd (login ?e ''a@b.com'' ''pw'' ?s))
              = [''jwt_token'' \<mapsto> ''t1'', ''user'' \<mapsto> ''{}'']"
    by (simp add: login_def login_try_def example_env_def ok_def login_token_def
        login_userInfo_def js_or_def state_ops initial_state_def to_str_def Let_def)
  from login_token_only_succeeds [OF h1 h2 h3 h4, of ?s]
  show ?thesis using ls by (simp add: prod_eq_iff state.equality)
qed

text \<open>
  C8. For a success response that carries a token, \<open>login\<close> succeeds; the token
  kept is the first truthy one of \<open>token\<close>, \<open>accessToken\<close> and \<open>jwt\<close>, and the
  stored user's display name (its \<open>name\<close>) is the \<open>fullName\<close> of the user
  information when that is there, else its \<open>name\<close> when that is there, else its
  \<open>email\<close>. The user information \<open>u\<close> is \<open>data.user\<close>, else \<open>data.data\<close>, else
  the body itself; "there" is JavaScript's truthiness, the test \<open>||\<close> makes.
\<close>

theorem login_normalizes_user:
  assumes "fetch e (login_request e email password) = Resolved r" and "ok r"
    and "json r = Some data"
    and "truthy (js_get data ''token'') \<or> truthy (js_get data ''accessToken'')
         \<or> truthy (js_get data ''jwt'')"
    and "u = (if truthy (js_get data ''user'') then js_get data ''user''
              else if truthy (js_get data ''data'') then js_get data ''data''
              else data)"
  shows "fst (login e email password s) = Inr True
    \<and> isAuthenticated (snd (login e email password s))
    \<and> token (snd (login e email password s))
        = (if truthy (js_get data ''token'') then js_get data ''token''
           else if truthy (js_get data ''accessToken'') then js_get data ''accessToken''
           else js_get data ''jwt'')
    \<and> js_get (user (snd (login e email password s))) ''name''
        = (if truthy (js_get u ''fullName'') then js_get u ''fullName''
           else if truthy (js_get u ''name'') then js_get u ''name''
           else js_get u ''email'')
    \<and> js_get (user (snd (login e email password s))) ''email'' = js_get u ''email''"
proof -
  have t: "truthy (login_token data)"
    using assms(4) by (auto simp: login_token_def js_or_def)
  have u: "login_userInfo data = u"
    using assms(5) by (simp add: login_userInfo_def js_or_def)
  show ?thesis
    by (simp add: login_success [OF assms(1-3) t] js_get_userData u)
       (simp add: login_token_def js_or_def)
qed

theorem login_normalizes_user_witness:
  "fst (login (example_env (\<lambda>q. Resolved \<lparr>status = 200, json = Some (JObject
          [(''token'', JString ''t1''),
           (''user'', JObject [(''_id'', JString ''u1''), (''email'', JString ''a@b.com'')])])\<rparr>))
        ''a@b.com'' ''pw'' (initial_state Map.empty)) = Inr True
   \<and> token (snd (login (example_env (\<lambda>q. Resolved \<lparr>status = 200, json = Some (JObject
          [(''token'', JString ''t1''),
           (''user'', JObject [(''_id'', JString ''u1''), (''email'', JString ''a@b.com'')])])\<rparr>))
        ''a@b.com'' ''pw'' (initial_state Map.empty))) = JString ''t1''
   \<and> js_get (user (snd (login (example_env (\<lambda>q. Resolved \<lparr>status = 200, json = Some (JObject
          [(''token'', JString ''t1''),
           (''user'', JObject [(''_id'', JString ''u1''), (''email'', JString ''a@b.com'')])])\<rparr>))
        ''a@b.com'' ''pw'' (initial_state Map.empty)))) ''name'' = JString ''a@b.com''"
proof -
  let ?u = "JObject [(''_id'', JString ''u1''), (''email'', JString ''a@b.com'')]"
  let ?d = "JObject [(''token'', JString ''t1''), (''user'', ?u)]"
  let ?r = "\<lparr>status = 200, json = Some ?d\<rparr>"
  let ?e = "example_env (\<lambda>q. Resolved ?r)"
  have h1: "fetch ?e (login_request ?e ''a@b.com'' ''pw'') = Resolved ?r"
    by (simp add: example_env_def)
  have h2: "ok ?r" by (simp add: ok_def)
  have h3: "json ?r = Some ?d" by simp
  have h4: "truthy (js_get ?d ''token'') \<or> truthy (js_get ?d ''accessToken'')
            \<or> truthy (js_get ?d ''jwt'')" by simp
  have h5: "?u = (if truthy (js_get ?d ''user'') then js_get ?d ''user''
                  else if truthy (js_get ?d ''data'') then js_get ?d ''data'' else ?d)"
    by simp
  from login_normalizes_user [OF h1 h2 h3 h4 h5, of "initial_state Map.empty"]
  show ?thesis by simp
qed

section \<open>makeAuthenticatedRequest\<close>

text \<open>
  C2. When the request completes with a response, the caller receives that
  response, and the session is logged out exactly when its status is 401: then
  the token and the user are \<open>null\<close>, the flag is unset and both storage keys
  are absent; for every other status the state is unchanged.
\<close>

theorem request_logout_iff_401:
  assumes "fetch e (authenticated_request e url options s) = Resolved r"
  shows "fst (makeAuthenticatedRequest e url options s) = Inr r
    \<and> snd (makeAuthenticatedRequest e url options s) = (if status r = 401 then logout s else s)
    \<and> (if status r = 401
       then token (snd (makeAuthenticatedRequest e url options s)) = JNull
          \<and> user (snd (makeAuthenticatedRequest e url options s)) = JNull
          \<and> isAuthenticated (snd (makeAuthenticatedRequest e url options s)) = False
          \<and> getItem (snd (makeAuthenticatedRequest e url options s)) ''jwt_token'' = None
          \<and> getItem (snd (makeAuthenticatedRequest e url options s)) ''user'' = None
       else snd (makeAuthenticatedRequest e url options s) = s)"
  using assms by (simp add: makeAuthenticatedRequest_def logout_fields getItem_def)

theorem request_logout_iff_401_witness:
  "makeAuthenticatedRequest (example_env (\<lambda>q. Resolved \<lparr>status = 401, json = None\<rparr>)) ''/products''
      \<lparr>init_method = None, init_headers = None, init_body = None\<rparr> example_session
    = (Inr \<lparr>status = 401, json = None\<rparr>, logout example_session)
   \<and> makeAuthenticatedRequest (example_env (\<lambda>q. Resolved \<lparr>status = 403, json = None\<rparr>)) ''/products''
      \<lparr>init_method = None, init_headers = None, init_body = None\<rparr> example_session
    = (Inr \<lparr>status = 403, json = None\<rparr>, example_session)"
proof -
  let ?o = "\<lparr>init_method = None, init_headers = None, init_body = None\<rparr>"
  let ?e1 = "example_env (\<lambda>q. Resolved \<lparr>status = 401, json = None\<rparr>)"
  let ?e2 = "example_env (\<lambda>q. Resolved \<lparr>status = 403, json = None\<rparr>)"
  have h1: "fetch ?e1 (authenticated_request ?e1 ''/products'' ?o example_session)
              = Resolved \<lparr>status = 401, json = None\<rparr>"
    by (simp add: example_env_def)
  have h2: "fetch ?e2 (authenticated_request ?e2 ''/products'' ?o example_session)
              = Resolved \<lparr>status = 403, json = None\<rparr>"
    by (simp add: example_env_def)
  from request_logout_iff_401 [OF h1] request_logout_iff_401 [OF h2]
  show ?thesis by (simp add: prod_eq_iff)
qed

text \<open>A rejected \<open>fetch\<close> reaches the caller, and the session is untouched.\<close>

lemma request_rejected:
  assumes "fetch e (authenticated_request e url options s) = Rejected"
  shows "makeAuthenticatedRequest e url options s = (Inl NetworkError, s)"
  using assms by (simp add: makeAuthenticatedRequest_def)

subsection \<open>Headers\<close>

text \<open>
  The headers handed to \<open>fetch\<close>, name by name: \<open>Authorization\<close> is the session's
  bearer token while one is held; otherwise a property the spread copied from
  the caller's headers; otherwise the default \<open>Content-Type\<close>.
\<close>

lemma request_headers_merge:
  "req_headers (authenticated_request e url options s) k =
     (if k = ''Authorization'' \<and> truthy (token s)
      then Some (''Bearer '' @ to_str e (token s))
      else if spread_headers (init_headers options) k \<noteq> None
      then spread_headers (init_headers options) k
      else if k = ''Content-Type'' then Some ''application/json''
      else None)"
  by (auto simp: authenticated_request_def request_headers_def map_add_def Let_def
      split: option.splits)

text \<open>
  For a plain object: a caller's header other than \<open>Authorization\<close> is sent as
  the caller gave it, under the caller's spelling of its name, the default
  \<open>Content-Type\<close> included; \<open>Content-Type\<close> is \<open>application/json\<close> when the caller
  gives none; and with no token held the caller's \<open>Authorization\<close>, if any, is
  passed on.
\<close>

lemma request_headers_caller:
  assumes "init_headers options = Some (HeadersRecord h)" "h k = Some v"
    "k \<noteq> ''Authorization''"
  shows "request_headers e options s k = Some v"
  using assms by (simp add: request_headers_def spread_headers_def map_add_def Let_def)

lemma request_headers_content_type:
  assumes "init_headers options = None
           \<or> (\<exists>h. init_headers options = Some (HeadersRecord h) \<and> h ''Content-Type'' = None)"
  shows "request_headers e options s ''Content-Type'' = Some ''application/json''"
  using assms by (auto simp: request_headers_def spread_headers_def map_add_def Let_def)

lemma request_headers_no_token:
  assumes "\<not> truthy (token s)" "init_headers options = Some (HeadersRecord h)"
  shows "request_headers e options s ''Authorization'' = h ''Authorization''"
  using assms
  by (simp add: request_headers_def spread_headers_def map_add_def Let_def split: option.splits)

lemma request_headers_token:
  assumes "truthy (token s)"
  shows "request_headers e options s ''Authorization'' = Some (''Bearer '' @ to_str e (token s))"
  using assms by (simp add: request_headers_def Let_def)

text \<open>
  Names are compared as the object spells them: a caller's \<open>content-type\<close> does
  not replace the default \<open>Content-Type\<close>, and both properties reach \<open>fetch\<close>.
\<close>

lemma request_headers_other_spelling:
  assumes "init_headers options = Some (HeadersRecord [''content-type'' \<mapsto> v])"
  shows "request_headers e options s ''Content-Type'' = Some ''application/json''
    \<and> request_headers e options s ''content-type'' = Some v"
  using assms by (simp add: request_headers_def spread_headers_def map_add_def Let_def)

text \<open>
  The other two forms of \<open>HeadersInit\<close> do not survive the spread: the entries of
  a \<open>Headers\<close> instance are dropped, and an array of pairs arrives as headers
  named by its indices.
\<close>

lemma request_headers_instance_dropped:
  assumes "init_headers options = Some (HeadersInstance l)"
  shows "request_headers e options s = request_headers e (options\<lparr>init_headers := None\<rparr>) s"
  using assms by (simp add: request_headers_def spread_headers_def)

lemma request_headers_pairs_example:
  assumes "init_headers options = Some (HeadersPairs [(''X-Custom'', ''1'')])"
  shows "request_headers e options s ''X-Custom'' = None
    \<and> request_headers e options s ''0'' = Some ''X-Custom,1''"
  using assms
  by (simp add: request_headers_def spread_headers_def map_add_def Let_def index_key.simps)

text \<open>
  The helper of the product store spreads the caller's headers last: there a
  caller's header wins on every name, \<open>Authorization\<close> included.
\<close>

lemma store_request_headers_caller:
  assumes "init_headers options = Some (HeadersRecord h)" "h k = Some v"
  shows "store_request_headers options s k = Some v"
  using assms by (simp add: store_request_headers_def spread_headers_def map_add_def)

text \<open>
  C6. The spec asks that a caller's header wins every conflict, the one on
  \<open>Authorization\<close> included. \<open>AuthProvider\<close> does not do that: it assigns
  \<open>Authorization\<close> after the caller's headers were spread, so while a token is
  held the request carries the session's bearer token, whatever the caller
  supplied. The helper of the product store, built from the same parts in the
  other order, sends the caller's value.
\<close>

theorem session_authorization_overrides_caller:
  assumes "truthy (token s)" and "init_headers options = Some (HeadersRecord h)"
    and "h ''Authorization'' = Some v"
  shows "req_headers (authenticated_request e url options s) ''Authorization''
        = Some (''Bearer '' @ to_str e (token s))
    \<and> store_request_headers options s ''Authorization'' = Some v"
  using assms
  by (simp add: request_headers_def authenticated_request_def store_request_headers_def
      spread_headers_def map_add_def Let_def)

theorem session_authorization_overrides_caller_witness:
  "req_headers (authenticated_request offline_env ''products''
      \<lparr>init_method = None,
       init_headers = Some (HeadersRecord [''Authorization'' \<mapsto> ''Bearer other'']),
       init_body = None\<rparr> example_session) ''Authorization''
   = Some ''Bearer t0''
   \<and> req_headers (authenticated_request offline_env ''products''
      \<lparr>init_method = None,
       init_headers = Some (HeadersRecord [''Authorization'' \<mapsto> ''Bearer other'']),
       init_body = None\<rparr> example_session) ''Authorization''
   \<noteq> Some ''Bearer other''
   \<and> store_request_headers
      \<lparr>init_method = None,
       init_headers = Some (HeadersRecord [''Authorization'' \<mapsto> ''Bearer other'']),
       init_body = None\<rparr> example_session ''Authorization''
   = Some ''Bearer other''"
proof -
  let ?h = "[''Authorization'' \<mapsto> ''Bearer other'']"
  let ?o = "\<lparr>init_method = None, init_headers = Some (HeadersRecord ?h), init_body = None\<rparr>"
  have h1: "truthy (token example_session)" by (simp add: example_session_def)
  have h2: "init_headers ?o = Some (HeadersRecord ?h)" by simp
  have h3: "?h ''Authorization'' = Some ''Bearer other''" by simp
  from session_authorization_overrides_caller
    [of example_session ?o ?h "''Bearer other''" offline_env "''products''", OF h1 h2 h3]
  show ?thesis by (simp add: example_session_def to_str_def)
qed

subsection \<open>URL resolution\<close>

lemma fullUrl_absolute: "prefix ''http'' url \<Longrightarrow> fullUrl e url = url"
  by (simp add: fullUrl_def)

text \<open>The helper of the product store resolves a path the same way with and without the slash.\<close>

lemma store_fullUrl_leading_slash:
  assumes "\<not> prefix ''http'' p" and "\<not> prefix ''/'' p"
  shows "store_fullUrl e (''/'' @ p) = store_fullUrl e p
    \<and> store_fullUrl e p = API_BASE_URL e @ ''/'' @ p"
  using assms by (simp add: store_fullUrl_def)

text \<open>
  C7. The spec asks that a relative path resolves to the same URL with and
  without its leading slash. In \<open>AuthProvider\<close> it does not: a path that starts
  with a slash loses its first four characters (\<open>url.slice(4)\<close>) before it is
  appended to the base URL, so for every relative path \<open>p\<close> the URL of \<open>/p\<close>
  differs from the URL of \<open>p\<close>.
\<close>

theorem leading_slash_changes_url:
  assumes "\<not> prefix ''http'' p" and "\<not> prefix ''/'' p"
  shows "fullUrl e (''/'' @ p) = API_BASE_URL e @ drop 3 p
    \<and> fullUrl e p = API_BASE_URL e @ ''/'' @ p
    \<and> fullUrl e (''/'' @ p) \<noteq> fullUrl e p"
proof -
  have a: "fullUrl e (''/'' @ p) = API_BASE_URL e @ drop 3 p"
    by (simp add: fullUrl_def)
  have b: "fullUrl e p = API_BASE_URL e @ ''/'' @ p"
    using assms by (simp add: fullUrl_def)
  have "length (drop 3 p) \<noteq> length (''/'' @ p)" by simp
  then have "drop 3 p \<noteq> ''/'' @ p" by metis
  with a b show ?thesis by simp
qed

theorem leading_slash_changes_url_witness:
  "fullUrl (example_env (\<lambda>q. Rejected)) ''/products'' = ''http://localhost:5001/apiducts''
   \<and> fullUrl (example_env (\<lambda>q. Rejected)) ''products'' = ''http://localhost:5001/api/products''"
proof -
  have h1: "\<not> prefix ''http'' ''products''" by simp
  have h2: "\<not> prefix ''/'' ''products''" by simp
  from leading_slash_changes_url [OF h1 h2, of "example_env (\<lambda>q. Rejected)"]
  show ?thesis by (simp add: API_BASE_URL_def getApiBaseUrl_def example_env_def)
qed

end
